theory Spec2Isabelle
  imports Complex_Main "HOL-Library.AList"
begin

section \<open>pay.py: the AI bill splitter\<close>

text \<open>
  A shallow embedding of \<^verbatim>\<open>src/pay.py\<close>: the extraction adapter
  \<^verbatim>\<open>get_gemini_response\<close> and the five steps of \<^verbatim>\<open>main\<close>, each a
  function on an explicit copy of \<^verbatim>\<open>st.session_state\<close>.

  Conventions of the model.
  \<^item> Amounts are exact rationals (the spec's decimals). Python computes them in binary
    floating point; the rounding of each float operation is not modelled.
  \<^item> A Python value that comes out of \<^verbatim>\<open>json.loads\<close> is a \<open>json\<close>; Python's
    \<^verbatim>\<open>None\<close> is \<open>JNull\<close>, a dict is an association list in insertion order.
  \<^item> A raised exception is a value of type \<open>error\<close>.
  \<^item> What the user does with a widget is an input: a widget is a function from what
    the script passes to it (index or key, default value) to what it returns.
  \<^item> The library calls the script makes (\<^verbatim>\<open>json.loads\<close>, the model call) are
    parameters. Streamlit's refusal of two widgets with one key is not modelled.
\<close>

subsection \<open>Values, errors, session state\<close>

datatype json =
    JNull
  | JBool bool
  | JNum rat
  | JStr string
  | JArr "json list"
  | JObj "(string \<times> json) list"

datatype error =
    KeyError string
  | ZeroDivisionError
  | AttributeError
  | NameError
  | SchemaError

text \<open>
  \<open>SchemaError\<close> stands for whatever Python raises (KeyError, TypeError, ValueError) when
  the bill dict does not have the shape the prompt asks for:
  \<^verbatim>\<open>{"items": [{"name": str, "price": number}, ...], "subtotal": number, "tax": number, "tip": number}\<close>.
\<close>

record bill_item =
  name :: string
  price :: rat

type_synonym allocation = "string \<rightharpoonup> string list"

type_synonym costs = "(string \<times> rat) list"

record session =
  names :: "string list option"
  original_bill_data :: "json option"
  edited_bill_data :: "json option"
  allocations :: "allocation option"


record widgets =
  item_name_input :: "nat \<Rightarrow> string \<Rightarrow> string"
  item_price_input :: "nat \<Rightarrow> rat \<Rightarrow> rat"
  subtotal_input :: "rat \<Rightarrow> rat"
  tax_input :: "rat \<Rightarrow> rat"
  tip_input :: "rat \<Rightarrow> rat"
  checkbox :: "string \<Rightarrow> bool"

subsection \<open>Reading the bill dict\<close>

definition item_of_json :: "json \<Rightarrow> bill_item option" where
  "item_of_json j =
     (case j of
        JObj kv \<Rightarrow>
          (case (map_of kv ''name'', map_of kv ''price'') of
             (Some (JStr n), Some (JNum p)) \<Rightarrow> Some \<lparr>name = n, price = p\<rparr>
           | _ \<Rightarrow> None)
      | _ \<Rightarrow> None)"

definition json_of_item :: "bill_item \<Rightarrow> json" where
  "json_of_item it = JObj [(''name'', JStr (name it)), (''price'', JNum (price it))]"

definition bill_items :: "json \<Rightarrow> bill_item list option" where
  "bill_items b =
     (case b of
        JObj kv \<Rightarrow>
          (case map_of kv ''items'' of
             Some (JArr js) \<Rightarrow> those (map item_of_json js)
           | _ \<Rightarrow> None)
      | _ \<Rightarrow> None)"

definition bill_num :: "json \<Rightarrow> string \<Rightarrow> rat option" where
  "bill_num b k =
     (case b of
        JObj kv \<Rightarrow> (case map_of kv k of Some (JNum r) \<Rightarrow> Some r | _ \<Rightarrow> None)
      | _ \<Rightarrow> None)"

definition setitem :: "json \<Rightarrow> string \<Rightarrow> json \<Rightarrow> json" where
  "setitem b k v = (case b of JObj kv \<Rightarrow> JObj (AList.update k v kv) | _ \<Rightarrow> b)"

subsection \<open>The extraction adapter (lines 15 to 58)\<close>

text \<open>
  The outcome of \<^verbatim>\<open>model.generate_content\<close>: it raises, or it gives a reply whose
  \<^verbatim>\<open>response.text\<close> is the string.
\<close>

datatype model_call = CallRaises | Reply string

text \<open>The exception the handler of line 54 catches.\<close>

datatype cause = CallFailed | JSONDecodeError | NoJsonFound

text \<open>What the adapter puts on the page: \<^verbatim>\<open>st.error\<close> twice, then \<^verbatim>\<open>st.code\<close>.\<close>

datatype ui_event = ErrorProcessing cause | ErrorRawResponse | Code string

text \<open>
  \<^verbatim>\<open>re.search(r'\{.*\}', text, re.DOTALL)\<close>: the leftmost match starts at the first
  opening brace that has a closing brace after it, which is the first opening brace of
  the text when there is a match at all; the greedy \<^verbatim>\<open>.*\<close> crosses newlines and
  gives back characters down to the last closing brace of the text.
\<close>

definition re_search_braces :: "string \<Rightarrow> string option" where
  "re_search_braces text =
     (case dropWhile (\<lambda>c. c \<noteq> CHR ''{'') text of
        [] \<Rightarrow> None
      | c # rest \<Rightarrow>
          (let m = rev (dropWhile (\<lambda>c. c \<noteq> CHR ''}'') (rev rest))
           in if m = [] then None else Some (c # m)))"

text \<open>Lines 55 to 58, once \<^verbatim>\<open>response\<close> is bound.\<close>

definition report_failure :: "cause \<Rightarrow> string \<Rightarrow> ui_event list \<times> (error + json)" where
  "report_failure c text = ([ErrorProcessing c, ErrorRawResponse, Code text], Inr JNull)"

text \<open>
  \<open>json_loads\<close> is \<^verbatim>\<open>json.loads\<close>: \<open>None\<close> when it raises JSONDecodeError. When the
  call raised, \<^verbatim>\<open>response\<close> is unbound at line 57: the two messages are on the page
  and the handler raises UnboundLocalError, a NameError.
\<close>

definition get_gemini_response ::
  "(string \<Rightarrow> json option) \<Rightarrow> model_call \<Rightarrow> ui_event list \<times> (error + json)" where
  "get_gemini_response json_loads call =
     (case call of
        CallRaises \<Rightarrow> ([ErrorProcessing CallFailed, ErrorRawResponse], Inl NameError)
      | Reply text \<Rightarrow>
          (case json_loads text of
             Some v \<Rightarrow> ([], Inr v)
           | None \<Rightarrow>
               (case re_search_braces text of
                  Some json_match \<Rightarrow>
                    (case json_loads json_match of
                       Some v \<Rightarrow> ([], Inr v)
                     | None \<Rightarrow> report_failure JSONDecodeError text)
                | None \<Rightarrow> report_failure NoJsonFound text)))"

subsection \<open>Step 1: the names (lines 68 to 72)\<close>

text \<open>\<^verbatim>\<open>str.split(",")\<close>\<close>

fun split_on :: "char \<Rightarrow> string \<Rightarrow> string list" where
  "split_on sep [] = [[]]"
| "split_on sep (c # cs) =
     (let r = split_on sep cs
      in if c = sep then [] # r else (c # hd r) # tl r)"

text \<open>\<^verbatim>\<open>str.strip()\<close>, on ASCII: the characters Python counts as whitespace below 128.\<close>

definition is_space :: "char \<Rightarrow> bool" where
  "is_space c = (of_char c \<in> {9, 10, 11, 12, 13, 28, 29, 30, 31, 32 :: nat})"

definition strip :: "string \<Rightarrow> string" where
  "strip s = rev (dropWhile is_space (rev (dropWhile is_space s)))"

definition enter_names :: "string \<Rightarrow> session \<Rightarrow> session" where
  "enter_names names_input s =
     (if names_input \<noteq> [] then s\<lparr>names := Some (map strip (split_on CHR '','' names_input))\<rparr>
      else s)"

subsection \<open>Step 2: the button "Analyze Bill" (lines 82 to 88)\<close>

text \<open>\<^verbatim>\<open>bill_data.copy()\<close>: dicts and lists have the method, nothing else json.loads gives.\<close>

definition py_copy :: "json \<Rightarrow> error + json" where
  "py_copy v =
     (case v of
        JObj kv \<Rightarrow> Inr (JObj kv)
      | JArr js \<Rightarrow> Inr (JArr js)
      | _ \<Rightarrow> Inl AttributeError)"

text \<open>
  A handler returns the session as the run leaves it, and the exception that ended the
  run, if one did. The copy is shallow: the items list is shared with
  \<open>original_bill_data\<close>, which the script never reads again; Step 3's writes to that list
  are recorded in \<open>edited_bill_data\<close> only.
\<close>

definition analyze_bill ::
  "(string \<Rightarrow> json option) \<Rightarrow> model_call \<Rightarrow> session \<Rightarrow> session \<times> error option" where
  "analyze_bill json_loads call s =
     (case snd (get_gemini_response json_loads call) of
        Inl e \<Rightarrow> (s, Some e)
      | Inr bill_data \<Rightarrow>
          (let s1 = s\<lparr>original_bill_data := Some bill_data\<rparr>
           in case py_copy bill_data of
                Inl e \<Rightarrow> (s1, Some e)
              | Inr c \<Rightarrow> (s1\<lparr>edited_bill_data := Some c\<rparr>, None)))"

subsection \<open>Step 3: verify and edit (lines 91 to 116)\<close>

definition edit_items :: "widgets \<Rightarrow> bill_item list \<Rightarrow> bill_item list" where
  "edit_items w its =
     map (\<lambda>(i, it). \<lparr>name = item_name_input w i (name it),
                     price = item_price_input w i (price it)\<rparr>)
       (enumerate 0 its)"

text \<open>
  Nothing is rendered while the session has no bill. On a bill that is not of the
  prompt's shape the step raises; the writes it made before that are not recorded.
\<close>

definition verify_and_edit :: "widgets \<Rightarrow> session \<Rightarrow> session \<times> error option" where
  "verify_and_edit w s =
     (case edited_bill_data s of
        None \<Rightarrow> (s, None)
      | Some ebd \<Rightarrow>
          (case (bill_items ebd, bill_num ebd ''subtotal'', bill_num ebd ''tax'',
                 bill_num ebd ''tip'') of
             (Some its, Some sub, Some tax, Some tip) \<Rightarrow>
               (let b1 = setitem ebd ''items'' (JArr (map json_of_item (edit_items w its)));
                    subtotal' = subtotal_input w sub;
                    b2 = setitem b1 ''subtotal'' (JNum subtotal');
                    tax' = tax_input w tax;
                    b3 = setitem b2 ''tax'' (JNum tax');
                    tip' = tip_input w tip;
                    b4 = setitem b3 ''tip'' (JNum tip');
                    b5 = setitem b4 ''total'' (JNum (subtotal' + tax' + tip'))
                in (s\<lparr>edited_bill_data := Some b5\<rparr>, None))
           | _ \<Rightarrow> (s, Some SchemaError)))"

subsection \<open>Step 4: allocate items (lines 119 to 134)\<close>

text \<open>\<^verbatim>\<open>{item['name']: [] for item in st.session_state['edited_bill_data']['items']}\<close>\<close>

definition new_allocations :: "bill_item list \<Rightarrow> allocation" where
  "new_allocations its = foldl (\<lambda>m it. m(name it \<mapsto> [])) Map.empty its"

text \<open>Lines 129 to 134 for one checkbox; \<^verbatim>\<open>list.remove\<close> takes out the first occurrence.\<close>

definition toggle :: "allocation \<Rightarrow> string \<Rightarrow> string \<Rightarrow> bool \<Rightarrow> error + allocation" where
  "toggle alloc item_name n checked =
     (case alloc item_name of
        None \<Rightarrow> Inl (KeyError item_name)
      | Some sharers \<Rightarrow>
          if checked then
            (if n \<notin> set sharers then Inr (alloc(item_name \<mapsto> sharers @ [n])) else Inr alloc)
          else
            (if n \<in> set sharers then Inr (alloc(item_name \<mapsto> remove1 n sharers)) else Inr alloc))"

definition assign :: "allocation \<Rightarrow> string \<Rightarrow> string \<Rightarrow> error + allocation" where
  "assign alloc item_name p = toggle alloc item_name p True"

definition unassign :: "allocation \<Rightarrow> string \<Rightarrow> string \<Rightarrow> error + allocation" where
  "unassign alloc item_name p = toggle alloc item_name p False"

fun toggle_names ::
  "widgets \<Rightarrow> allocation \<Rightarrow> string \<Rightarrow> string list \<Rightarrow> allocation \<times> error option" where
  "toggle_names w alloc item_name [] = (alloc, None)"
| "toggle_names w alloc item_name (n # ns) =
     (case toggle alloc item_name n (checkbox w (item_name @ ''_'' @ n)) of
        Inl e \<Rightarrow> (alloc, Some e)
      | Inr alloc' \<Rightarrow> toggle_names w alloc' item_name ns)"

fun toggle_items ::
  "widgets \<Rightarrow> allocation \<Rightarrow> string list \<Rightarrow> bill_item list \<Rightarrow> allocation \<times> error option" where
  "toggle_items w alloc ns [] = (alloc, None)"
| "toggle_items w alloc ns (it # its) =
     (case toggle_names w alloc (name it) ns of
        (alloc', Some e) \<Rightarrow> (alloc', Some e)
      | (alloc', None) \<Rightarrow> toggle_items w alloc' ns its)"

definition allocate_items :: "widgets \<Rightarrow> session \<Rightarrow> session \<times> error option" where
  "allocate_items w s =
     (case (edited_bill_data s, names s) of
        (Some ebd, Some ns) \<Rightarrow>
          (case bill_items ebd of
             None \<Rightarrow> (s, Some SchemaError)
           | Some its \<Rightarrow>
               (let alloc0 = (case allocations s of
                                None \<Rightarrow> new_allocations its
                              | Some alloc \<Rightarrow> alloc);
                    r = toggle_items w alloc0 ns its
                in (s\<lparr>allocations := Some (fst r)\<rparr>, snd r)))
      | _ \<Rightarrow> (s, None))"

subsection \<open>Step 5: the split calculation (lines 137 to 171)\<close>

text \<open>\<^verbatim>\<open>{name: 0 for name in st.session_state['names']}\<close>: one entry per distinct name.\<close>

definition init_costs :: "string list \<Rightarrow> costs" where
  "init_costs ns = foldl (\<lambda>d n. AList.update n 0 d) [] ns"

text \<open>\<^verbatim>\<open>individual_costs[name] += cost_per_person\<close>\<close>

definition add_cost :: "costs \<Rightarrow> string \<Rightarrow> rat \<Rightarrow> error + costs" where
  "add_cost d n c =
     (case map_of d n of
        None \<Rightarrow> Inl (KeyError n)
      | Some v \<Rightarrow> Inr (AList.update n (v + c) d))"

fun add_shares :: "costs \<Rightarrow> rat \<Rightarrow> string list \<Rightarrow> error + costs" where
  "add_shares d c [] = Inr d"
| "add_shares d c (n # ns) =
     (case add_cost d n c of
        Inl e \<Rightarrow> Inl e
      | Inr d' \<Rightarrow> add_shares d' c ns)"

text \<open>Python's \<^verbatim>\<open>x / n\<close> for a float and an int.\<close>

definition py_div :: "rat \<Rightarrow> nat \<Rightarrow> error + rat" where
  "py_div x n = (if n = 0 then Inl ZeroDivisionError else Inr (x / of_nat n))"

text \<open>The body of the loop over the items (lines 144 to 148).\<close>

definition split_item :: "allocation \<Rightarrow> costs \<Rightarrow> bill_item \<Rightarrow> error + costs" where
  "split_item alloc d it =
     (case alloc (name it) of
        None \<Rightarrow> Inl (KeyError (name it))
      | Some allocated_to \<Rightarrow>
          if allocated_to \<noteq> [] then
            (case py_div (price it) (length allocated_to) of
               Inl e \<Rightarrow> Inl e
             | Inr cost_per_person \<Rightarrow> add_shares d cost_per_person allocated_to)
          else Inr d)"

fun split_items :: "allocation \<Rightarrow> costs \<Rightarrow> bill_item list \<Rightarrow> error + costs" where
  "split_items alloc d [] = Inr d"
| "split_items alloc d (it # its) =
     (case split_item alloc d it of
        Inl e \<Rightarrow> Inl e
      | Inr d' \<Rightarrow> split_items alloc d' its)"

text \<open>
  \<^verbatim>\<open>DataFrame.round(2)\<close>: the value times 100 rounded to the nearest integer, a tie to
  the even one, over 100.
\<close>

definition rint :: "rat \<Rightarrow> int" where
  "rint x =
     (let f = \<lfloor>x\<rfloor>; r = x - of_int f
      in if r < 1 / 2 then f else if 1 / 2 < r then f + 1 else if even f then f else f + 1)"

definition round2 :: "rat \<Rightarrow> rat" where
  "round2 x = of_int (rint (x * 100)) / 100"

definition round_amounts :: "costs \<Rightarrow> costs" where
  "round_amounts d = map (\<lambda>(n, v). (n, round2 v)) d"

record split_result =
  individual_costs :: costs
  results_df :: costs
  final_costs :: costs
  final_df :: costs

text \<open>
  The handler of the button "Calculate Split". \<open>Inr None\<close>: the condition of line 138
  is false and nothing is shown.
\<close>

definition calculate_split :: "session \<Rightarrow> error + split_result option" where
  "calculate_split s =
     (case (allocations s, edited_bill_data s) of
        (Some alloc, Some ebd) \<Rightarrow>
          (case names s of
             None \<Rightarrow> Inl (KeyError ''names'')
           | Some ns \<Rightarrow>
               (case bill_items ebd of
                  None \<Rightarrow> Inl SchemaError
                | Some its \<Rightarrow>
                    (case split_items alloc (init_costs ns) its of
                       Inl e \<Rightarrow> Inl e
                     | Inr ind \<Rightarrow>
                         (case (bill_num ebd ''subtotal'', bill_num ebd ''tax'',
                                bill_num ebd ''tip'', bill_num ebd ''total'') of
                            (Some sub, Some tax, Some tip, Some tot) \<Rightarrow>
                              (case py_div (tax + tip) (length ns) of
                                 Inl e \<Rightarrow> Inl e
                               | Inr tax_and_tip_per_person \<Rightarrow>
                                   let fin = map (\<lambda>(n, cost). (n, cost + tax_and_tip_per_person)) ind
                                   in Inr (Some \<lparr>individual_costs = ind,
                                                 results_df = round_amounts ind,
                                                 final_costs = fin,
                                                 final_df = round_amounts fin\<rparr>))
                          | _ \<Rightarrow> Inl SchemaError))))
      | _ \<Rightarrow> Inr None)"



subsection \<open>One run of the script\<close>

text \<open>
  Streamlit runs \<^verbatim>\<open>main\<close> from the top after every interaction; an exception ends
  the run and the session keeps what was written before it.
\<close>

record run_input =
  names_input :: string
  analyze_click :: "model_call option"
  page :: widgets
  calculate_click :: bool

definition main ::
  "(string \<Rightarrow> json option) \<Rightarrow> run_input \<Rightarrow> session \<Rightarrow> session \<times> (error + split_result option)" where
  "main json_loads inp s0 =
     (let s1 = enter_names (names_input inp) s0
      in case (case analyze_click inp of
                 None \<Rightarrow> (s1, None)
               | Some call \<Rightarrow> analyze_bill json_loads call s1) of
           (s2, Some e) \<Rightarrow> (s2, Inl e)
         | (s2, None) \<Rightarrow>
             (case verify_and_edit (page inp) s2 of
                (s3, Some e) \<Rightarrow> (s3, Inl e)
              | (s3, None) \<Rightarrow>
                  (case allocate_items (page inp) s3 of
                     (s4, Some e) \<Rightarrow> (s4, Inl e)
                   | (s4, None) \<Rightarrow>
                       (s4, if calculate_click inp then calculate_split s4 else Inr None))))"


subsection \<open>The vocabulary of the specification\<close>


text \<open>The sharer set of an item: the list the map holds, read as a set.\<close>

definition sharers :: "allocation \<Rightarrow> string \<Rightarrow> string set option" where
  "sharers alloc item_name = map_option set (alloc item_name)"

text \<open>A second toggle after a first one; an exception of the first ends the run.\<close>

definition toggle_then ::
  "error + allocation \<Rightarrow> string \<Rightarrow> string \<Rightarrow> bool \<Rightarrow> error + allocation" where
  "toggle_then r item_name n checked =
     (case r of Inl e \<Rightarrow> Inl e | Inr alloc \<Rightarrow> toggle alloc item_name n checked)"

definition same_outcome :: "error + allocation \<Rightarrow> error + allocation \<Rightarrow> bool" where
  "same_outcome r1 r2 =
     (case r1 of
        Inl e1 \<Rightarrow> (case r2 of Inl e2 \<Rightarrow> True | Inr b \<Rightarrow> False)
      | Inr a \<Rightarrow> (case r2 of Inl e2 \<Rightarrow> False | Inr b \<Rightarrow> sharers a = sharers b))"

text \<open>
  A reply cannot be parsed: \<^verbatim>\<open>json.loads\<close> raises on the whole text, and either the
  pattern finds nothing or \<^verbatim>\<open>json.loads\<close> raises on what it finds.
\<close>

definition unparsable :: "(string \<Rightarrow> json option) \<Rightarrow> string \<Rightarrow> bool" where
  "unparsable json_loads text =
     (json_loads text = None \<and>
      (case re_search_braces text of
         None \<Rightarrow> True
       | Some json_match \<Rightarrow> json_loads json_match = None))"

subsection \<open>Example data\<close>

text \<open>The end-to-end scenario of the specification.\<close>

definition scenario_items :: "bill_item list" where
  "scenario_items = [\<lparr>name = ''Pizza'', price = 20\<rparr>, \<lparr>name = ''Soda'', price = 4\<rparr>]"

definition bill_json :: "bill_item list \<Rightarrow> rat \<Rightarrow> rat \<Rightarrow> rat \<Rightarrow> rat \<Rightarrow> json" where
  "bill_json its sub tax tip tot =
     JObj [(''items'', JArr (map json_of_item its)), (''subtotal'', JNum sub),
           (''tax'', JNum tax), (''tip'', JNum tip), (''total'', JNum tot)]"

definition scenario_bill :: json where
  "scenario_bill = bill_json scenario_items 24 2 3 29"

definition scenario_alloc :: allocation where
  "scenario_alloc = [''Pizza'' \<mapsto> [''Alice'', ''Bob''], ''Soda'' \<mapsto> [''Alice'']]"

definition scenario_session :: session where
  "scenario_session =
     \<lparr>names = Some [''Alice'', ''Bob''],
      original_bill_data = Some scenario_bill,
      edited_bill_data = Some scenario_bill,
      allocations = Some scenario_alloc\<rparr>"









text \<open>The reply of the specification's fallback example, and the object inside it.\<close>

definition example_object :: string where
  "example_object =
     ''{'' @ [CHR 0x22] @ ''items'' @ [CHR 0x22] @ '':[],'' @
     [CHR 0x22] @ ''subtotal'' @ [CHR 0x22] @ '':0,'' @
     [CHR 0x22] @ ''tax'' @ [CHR 0x22] @ '':0,'' @
     [CHR 0x22] @ ''tip'' @ [CHR 0x22] @ '':0,'' @
     [CHR 0x22] @ ''total'' @ [CHR 0x22] @ '':0}''"

definition example_reply :: string where
  "example_reply = ''Here you go: '' @ example_object @ '' thanks!''"

definition empty_bill :: json where
  "empty_bill = bill_json [] 0 0 0 0"

text \<open>
  \<^verbatim>\<open>json.loads\<close> on the strings the examples give it: the object of the example, the
  text \<^verbatim>\<open>null\<close>, and texts that are not JSON. It is not \<^verbatim>\<open>json.loads\<close> elsewhere.
\<close>

definition sample_loads :: "string \<Rightarrow> json option" where
  "sample_loads t =
     (if t = example_object then Some empty_bill
      else if t = ''null'' then Some JNull
      else None)"

text \<open>A page nobody touched: every input gives back its default, no box is ticked.\<close>

definition untouched :: widgets where
  "untouched =
     \<lparr>item_name_input = (\<lambda>i n. n), item_price_input = (\<lambda>i p. p),
      subtotal_input = (\<lambda>x. x), tax_input = (\<lambda>x. x), tip_input = (\<lambda>x. x),
      checkbox = (\<lambda>k. False)\<rparr>"

text \<open>The edit of the specification's example: subtotal 10.00, tax 1.00, tip 2.00.\<close>

definition edit_10_1_2 :: widgets where
  "edit_10_1_2 = untouched\<lparr>subtotal_input := (\<lambda>x. 10), tax_input := (\<lambda>x. 1), tip_input := (\<lambda>x. 2)\<rparr>"

text \<open>The scenario's bill with a total that is not the sum of the other three.\<close>

definition stale_bill :: json where
  "stale_bill = bill_json scenario_items 24 2 3 99"

definition stale_session :: session where
  "stale_session = scenario_session\<lparr>edited_bill_data := Some stale_bill\<rparr>"

text \<open>One item with one sharer.\<close>

definition tea_alloc :: allocation where
  "tea_alloc = [''Tea'' \<mapsto> [''Ann'']]"


text \<open>The scenario after Step 3 has renamed Pizza to Pasta: the allocation map is as before.\<close>

definition renamed_items :: "bill_item list" where
  "renamed_items = [\<lparr>name = ''Pasta'', price = 20\<rparr>, \<lparr>name = ''Soda'', price = 4\<rparr>]"

definition renamed_bill :: json where
  "renamed_bill = bill_json renamed_items 24 2 3 29"

definition renamed_session :: session where
  "renamed_session = scenario_session\<lparr>edited_bill_data := Some renamed_bill\<rparr>"

text \<open>The run that renames it: the first name input returns Pasta.\<close>

definition rename_run :: run_input where
  "rename_run =
     \<lparr>names_input = ''Alice, Bob'', analyze_click = None,
      page = untouched\<lparr>item_name_input := (\<lambda>i n. if i = 0 then ''Pasta'' else n)\<rparr>,
      calculate_click = False\<rparr>"

text \<open>The scenario before Step 4 has run for the first time.\<close>

definition unallocated_session :: session where
  "unallocated_session = scenario_session\<lparr>allocations := None\<rparr>"

section \<open>Properties\<close>

subsection \<open>The loop over the items\<close>

lemma add_cost_not_zdiv: "add_cost d n c \<noteq> Inl ZeroDivisionError"
  by (simp add: add_cost_def split: option.splits)

lemma add_shares_not_zdiv: "add_shares d c ns \<noteq> Inl ZeroDivisionError"
  by (induction ns arbitrary: d) (auto simp: add_cost_not_zdiv split: sum.splits)

lemma split_item_not_zdiv: "split_item alloc d it \<noteq> Inl ZeroDivisionError"
  by (auto simp: split_item_def py_div_def add_shares_not_zdiv split: option.splits sum.splits)

lemma split_item_unallocated: "alloc (name it) = Some [] \<Longrightarrow> split_item alloc d it = Inr d"
  by (simp add: split_item_def)

lemma split_items_not_zdiv: "split_items alloc d its \<noteq> Inl ZeroDivisionError"
  by (induction its arbitrary: d) (auto simp: split_item_not_zdiv split: sum.splits)

lemma split_items_filter:
  "split_items alloc d (filter (\<lambda>it. alloc (name it) \<noteq> Some []) its) = split_items alloc d its"
  by (induction its arbitrary: d) (auto simp: split_item_unallocated split: sum.splits)

text \<open>
  C3. An item whose sharer list is empty leaves every participant's individual cost as
  it was: the body of the loop returns the costs unchanged. The test of line 145 comes
  before the division of line 146, so neither one item nor the whole loop can raise
  ZeroDivisionError. The loop over a bill equals the loop over the bill without its
  unallocated items: their prices go to nobody.
\<close>

theorem unallocated_items_excluded:
  "(alloc (name it) = Some [] \<longrightarrow> split_item alloc d it = Inr d)
   \<and> split_item alloc d it \<noteq> Inl ZeroDivisionError
   \<and> split_items alloc d its \<noteq> Inl ZeroDivisionError
   \<and> split_items alloc d its =
       split_items alloc d (filter (\<lambda>it. alloc (name it) \<noteq> Some []) its)"
  by (simp add: split_item_unallocated split_item_not_zdiv split_items_not_zdiv split_items_filter)

theorem unallocated_items_excluded_witness:
  "[''Soda'' \<mapsto> []] (name \<lparr>name = ''Soda'', price = 4\<rparr>) = Some []
   \<and> split_item [''Soda'' \<mapsto> []] [(''Alice'', 14)] \<lparr>name = ''Soda'', price = 4\<rparr>
       = Inr [(''Alice'', 14)]"
  using unallocated_items_excluded
    [of "[''Soda'' \<mapsto> []]" "\<lparr>name = ''Soda'', price = 4\<rparr>" "[(''Alice'', 14)]" "[]"]
  by simp

subsection \<open>Conservation\<close>




















lemma scenario_bill_fields:
  "bill_items scenario_bill = Some scenario_items"
  "bill_num scenario_bill ''tax'' = Some 2"
  "bill_num scenario_bill ''tip'' = Some 3"
  by code_simp+







subsection \<open>Tax and tip\<close>








subsection \<open>Step 3 recomputes the total\<close>

lemma bill_items_obj: "bill_items b = Some its \<Longrightarrow> \<exists>kv. b = JObj kv"
  by (cases b) (simp_all add: bill_items_def)

lemma edited_totals:
  "bill_num (setitem (setitem (setitem (setitem (setitem (JObj kv) ''items'' j)
       ''subtotal'' (JNum x)) ''tax'' (JNum y)) ''tip'' (JNum z)) ''total'' (JNum t)) k =
     (if k = ''total'' then Some t else if k = ''tip'' then Some z
      else if k = ''tax'' then Some y else if k = ''subtotal'' then Some x
      else if k = ''items'' then (case j of JNum r \<Rightarrow> Some r | _ \<Rightarrow> None)
      else bill_num (JObj kv) k)"
  by (simp add: bill_num_def setitem_def update_conv')

lemma verify_and_edit_ok:
  assumes "edited_bill_data s = Some ebd" and "bill_items ebd = Some its"
    and "bill_num ebd ''subtotal'' = Some sub" and "bill_num ebd ''tax'' = Some tax"
    and "bill_num ebd ''tip'' = Some tip"
  shows "verify_and_edit w s =
    (s\<lparr>edited_bill_data := Some
       (setitem (setitem (setitem (setitem
          (setitem ebd ''items'' (JArr (map json_of_item (edit_items w its))))
          ''subtotal'' (JNum (subtotal_input w sub))) ''tax'' (JNum (tax_input w tax)))
          ''tip'' (JNum (tip_input w tip)))
          ''total'' (JNum (subtotal_input w sub + tax_input w tax + tip_input w tip)))\<rparr>,
     None)"
  using assms by (simp add: verify_and_edit_def Let_def)

lemma verify_and_edit_cases:
  assumes "verify_and_edit w s = (s', None)" and "edited_bill_data s' = Some ebd'"
  shows "\<exists>ebd its sub tax tip. edited_bill_data s = Some ebd \<and> bill_items ebd = Some its
      \<and> bill_num ebd ''subtotal'' = Some sub \<and> bill_num ebd ''tax'' = Some tax
      \<and> bill_num ebd ''tip'' = Some tip"
  using assms by (auto simp: verify_and_edit_def split: option.splits)

text \<open>
  C4. Step 3 runs on every run of the script once a bill is in the session. On a bill of
  the prompt's shape it succeeds, stores what the three inputs return as subtotal, tax
  and tip, and stores their sum as total; the total the bill had before plays no part.
  So after every Step 3 that ends without an exception the total of the edited bill is
  its subtotal plus its tax plus its tip. With the inputs at 10.00, 1.00 and 2.00 the
  total is 13.00.
\<close>

theorem total_recomputation:
  "(edited_bill_data s = Some ebd \<and> bill_items ebd = Some its
      \<and> bill_num ebd ''subtotal'' = Some sub \<and> bill_num ebd ''tax'' = Some tax
      \<and> bill_num ebd ''tip'' = Some tip \<longrightarrow>
      (\<exists>ebd'. verify_and_edit w s = (s\<lparr>edited_bill_data := Some ebd'\<rparr>, None)
         \<and> bill_num ebd' ''subtotal'' = Some (subtotal_input w sub)
         \<and> bill_num ebd' ''tax'' = Some (tax_input w tax)
         \<and> bill_num ebd' ''tip'' = Some (tip_input w tip)
         \<and> bill_num ebd' ''total''
             = Some (subtotal_input w sub + tax_input w tax + tip_input w tip)))
   \<and> (verify_and_edit w s = (s', None) \<and> edited_bill_data s' = Some ebd' \<longrightarrow>
      (\<exists>x y z. bill_num ebd' ''subtotal'' = Some x \<and> bill_num ebd' ''tax'' = Some y
         \<and> bill_num ebd' ''tip'' = Some z \<and> bill_num ebd' ''total'' = Some (x + y + z)))"
proof (intro conjI impI)
  assume a: "edited_bill_data s = Some ebd \<and> bill_items ebd = Some its
      \<and> bill_num ebd ''subtotal'' = Some sub \<and> bill_num ebd ''tax'' = Some tax
      \<and> bill_num ebd ''tip'' = Some tip"
  then obtain kv where kv: "ebd = JObj kv" using bill_items_obj by blast
  from a have "verify_and_edit w s =
    (s\<lparr>edited_bill_data := Some
       (setitem (setitem (setitem (setitem
          (setitem ebd ''items'' (JArr (map json_of_item (edit_items w its))))
          ''subtotal'' (JNum (subtotal_input w sub))) ''tax'' (JNum (tax_input w tax)))
          ''tip'' (JNum (tip_input w tip)))
          ''total'' (JNum (subtotal_input w sub + tax_input w tax + tip_input w tip)))\<rparr>,
     None)"
    by (simp add: verify_and_edit_ok)
  then show "\<exists>ebd'. verify_and_edit w s = (s\<lparr>edited_bill_data := Some ebd'\<rparr>, None)
         \<and> bill_num ebd' ''subtotal'' = Some (subtotal_input w sub)
         \<and> bill_num ebd' ''tax'' = Some (tax_input w tax)
         \<and> bill_num ebd' ''tip'' = Some (tip_input w tip)
         \<and> bill_num ebd' ''total''
             = Some (subtotal_input w sub + tax_input w tax + tip_input w tip)"
    unfolding kv by (intro exI conjI, assumption) (simp_all add: edited_totals)
next
  assume b: "verify_and_edit w s = (s', None) \<and> edited_bill_data s' = Some ebd'"
  with verify_and_edit_cases obtain ebd its sub tax tip where
    f: "edited_bill_data s = Some ebd" "bill_items ebd = Some its"
      "bill_num ebd ''subtotal'' = Some sub" "bill_num ebd ''tax'' = Some tax"
      "bill_num ebd ''tip'' = Some tip"
    by blast
  then obtain kv where kv: "ebd = JObj kv" using bill_items_obj by blast
  from b verify_and_edit_ok [OF f, of w] have "ebd' =
       setitem (setitem (setitem (setitem
          (setitem ebd ''items'' (JArr (map json_of_item (edit_items w its))))
          ''subtotal'' (JNum (subtotal_input w sub))) ''tax'' (JNum (tax_input w tax)))
          ''tip'' (JNum (tip_input w tip)))
          ''total'' (JNum (subtotal_input w sub + tax_input w tax + tip_input w tip))"
    by auto
  then show "\<exists>x y z. bill_num ebd' ''subtotal'' = Some x \<and> bill_num ebd' ''tax'' = Some y
         \<and> bill_num ebd' ''tip'' = Some z \<and> bill_num ebd' ''total'' = Some (x + y + z)"
    by (simp add: kv edited_totals)
qed

theorem total_recomputation_witness:
  "edited_bill_data stale_session = Some stale_bill
   \<and> bill_num stale_bill ''total'' = Some 99
   \<and> (\<exists>ebd'. verify_and_edit edit_10_1_2 stale_session
                 = (stale_session\<lparr>edited_bill_data := Some ebd'\<rparr>, None)
          \<and> bill_num ebd' ''subtotal'' = Some 10
          \<and> bill_num ebd' ''tax'' = Some 1
          \<and> bill_num ebd' ''tip'' = Some 2
          \<and> bill_num ebd' ''total'' = Some 13
          \<and> (\<exists>x y z. bill_num ebd' ''subtotal'' = Some x \<and> bill_num ebd' ''tax'' = Some y
                 \<and> bill_num ebd' ''tip'' = Some z \<and> bill_num ebd' ''total'' = Some (x + y + z)))"
proof -
  have a: "edited_bill_data stale_session = Some stale_bill"
    by (simp add: stale_session_def)
  have b: "bill_items stale_bill = Some scenario_items" "bill_num stale_bill ''subtotal'' = Some 24"
    "bill_num stale_bill ''tax'' = Some 2" "bill_num stale_bill ''tip'' = Some 3"
    "bill_num stale_bill ''total'' = Some 99"
    by code_simp+
  have c: "subtotal_input edit_10_1_2 24 = 10" "tax_input edit_10_1_2 2 = 1"
    "tip_input edit_10_1_2 3 = 2"
    by (simp_all add: edit_10_1_2_def)
  from total_recomputation [of stale_session stale_bill scenario_items 24 2 3 edit_10_1_2]
    a b c
  obtain ebd' where e: "verify_and_edit edit_10_1_2 stale_session
                 = (stale_session\<lparr>edited_bill_data := Some ebd'\<rparr>, None)"
    "bill_num ebd' ''subtotal'' = Some 10" "bill_num ebd' ''tax'' = Some 1"
    "bill_num ebd' ''tip'' = Some 2" "bill_num ebd' ''total'' = Some 13"
    by auto
  from total_recomputation
    [where s = stale_session and w = edit_10_1_2 and ebd' = ebd'
       and s' = "stale_session\<lparr>edited_bill_data := Some ebd'\<rparr>"]
    e(1)
  have "\<exists>x y z. bill_num ebd' ''subtotal'' = Some x \<and> bill_num ebd' ''tax'' = Some y
                 \<and> bill_num ebd' ''tip'' = Some z \<and> bill_num ebd' ''total'' = Some (x + y + z)"
    by simp
  with a b(5) e show ?thesis by blast
qed

subsection \<open>The extraction adapter\<close>

lemma re_search_shape:
  assumes "re_search_braces text = Some m"
  shows "\<exists>pre b post. text = pre @ m @ post \<and> m = CHR ''{'' # b @ [CHR ''}'']
           \<and> CHR ''{'' \<notin> set pre \<and> CHR ''}'' \<notin> set post"
proof -
  let ?P = "\<lambda>c. c \<noteq> CHR ''{''" and ?Q = "\<lambda>c. c \<noteq> CHR ''}''"
  from assms obtain c rest where d: "dropWhile ?P text = c # rest"
    and m: "m = c # rev (dropWhile ?Q (rev rest))"
    and ne: "dropWhile ?Q (rev rest) \<noteq> []"
    by (auto simp: re_search_braces_def Let_def split: list.splits if_splits)
  from d have c: "c = CHR ''{''"
    using hd_dropWhile [of "?P" "text"] by force
  have t: "text = takeWhile ?P text @ c # rest"
    using d takeWhile_dropWhile_id [of "?P" "text"] by simp
  have r: "rest = rev (dropWhile ?Q (rev rest)) @ rev (takeWhile ?Q (rev rest))"
    by (metis rev_append rev_rev_ident takeWhile_dropWhile_id)
  from ne obtain x xs where x: "dropWhile ?Q (rev rest) = x # xs"
    by (cases "dropWhile ?Q (rev rest)") auto
  then have "x = CHR ''}''"
    using hd_dropWhile [of "?Q" "rev rest"] by force
  with x have m': "m = CHR ''{'' # rev xs @ [CHR ''}'']" using m c by simp
  have p1: "CHR ''{'' \<notin> set (takeWhile ?P text)"
    using set_takeWhileD by fastforce
  have p2: "CHR ''}'' \<notin> set (rev (takeWhile ?Q (rev rest)))"
    using set_takeWhileD by fastforce
  have "text = takeWhile ?P text @ m @ rev (takeWhile ?Q (rev rest))"
    using t r m by simp
  with m' p1 p2 show ?thesis by blast
qed

lemma re_search_found:
  assumes "text = a @ CHR ''{'' # b @ CHR ''}'' # c"
  shows "re_search_braces text \<noteq> None"
proof -
  let ?P = "\<lambda>c. c \<noteq> CHR ''{''" and ?Q = "\<lambda>c. c \<noteq> CHR ''}''"
  have "\<exists>r. dropWhile ?P text = CHR ''{'' # r \<and> CHR ''}'' \<in> set r"
  proof (cases "dropWhile ?P a")
    case Nil
    then have "\<forall>x\<in>set a. ?P x" by (simp add: dropWhile_eq_Nil_conv)
    then have "dropWhile ?P text = CHR ''{'' # b @ CHR ''}'' # c"
      unfolding assms by (simp add: dropWhile_append2)
    then show ?thesis by simp
  next
    case (Cons x xs)
    then have "x = CHR ''{''" using hd_dropWhile [of "?P" a] by force
    moreover have "dropWhile ?P text = dropWhile ?P a @ CHR ''{'' # b @ CHR ''}'' # c"
      unfolding assms using Cons
      by (metis dropWhile_append1 list.distinct(1) dropWhile_eq_Nil_conv)
    ultimately show ?thesis using Cons by simp
  qed
  then obtain r where r: "dropWhile ?P text = CHR ''{'' # r" "CHR ''}'' \<in> set r" by blast
  then have "dropWhile ?Q (rev r) \<noteq> []" by (simp add: dropWhile_eq_Nil_conv)
  with r show ?thesis by (simp add: re_search_braces_def Let_def)
qed

lemma re_search_None_iff:
  "re_search_braces text = None \<longleftrightarrow>
     \<not> (\<exists>a b c. text = a @ CHR ''{'' # b @ CHR ''}'' # c)"
proof
  assume "re_search_braces text = None"
  then show "\<not> (\<exists>a b c. text = a @ CHR ''{'' # b @ CHR ''}'' # c)"
    using re_search_found by blast
next
  assume n: "\<not> (\<exists>a b c. text = a @ CHR ''{'' # b @ CHR ''}'' # c)"
  show "re_search_braces text = None"
  proof (rule ccontr)
    assume "re_search_braces text \<noteq> None"
    then obtain m where "re_search_braces text = Some m" by blast
    from re_search_shape [OF this] obtain pre b post where
      "text = pre @ (CHR ''{'' # b @ [CHR ''}'']) @ post" by blast
    then have "text = pre @ CHR ''{'' # b @ CHR ''}'' # post" by simp
    with n show False by blast
  qed
qed

lemma example_match: "re_search_braces example_reply = Some example_object"
  by code_simp

lemma empty_bill_items: "bill_items empty_bill = Some []"
  by code_simp

text \<open>
  C5. The adapter first gives the whole reply to json.loads and returns what it parses.
  When that raises, it searches the reply for the pattern: the match runs from the
  first opening brace to the last closing brace of the reply, across newlines, and
  there is none exactly when no opening brace has a closing brace after it. It returns
  what json.loads parses from the match. When there is no match, or json.loads raises
  on the match, it shows the error, then the raw reply text, and returns None. On the
  reply of the specification's example the match is the object between the braces; as
  json.loads rejects the whole reply and parses the object, the adapter returns the
  bill with no items.
\<close>

theorem extraction_parsing_policy:
  "(json_loads text = Some v \<longrightarrow> get_gemini_response json_loads (Reply text) = ([], Inr v))
   \<and> (json_loads text = None \<and> re_search_braces text = Some m \<and> json_loads m = Some v \<longrightarrow>
        get_gemini_response json_loads (Reply text) = ([], Inr v))
   \<and> (json_loads text = None \<and> re_search_braces text = Some m \<and> json_loads m = None \<longrightarrow>
        get_gemini_response json_loads (Reply text)
          = ([ErrorProcessing JSONDecodeError, ErrorRawResponse, Code text], Inr JNull))
   \<and> (json_loads text = None \<and> re_search_braces text = None \<longrightarrow>
        get_gemini_response json_loads (Reply text)
          = ([ErrorProcessing NoJsonFound, ErrorRawResponse, Code text], Inr JNull))
   \<and> (re_search_braces text = Some m \<longrightarrow>
        (\<exists>pre b post. text = pre @ m @ post \<and> m = CHR ''{'' # b @ [CHR ''}'']
           \<and> CHR ''{'' \<notin> set pre \<and> CHR ''}'' \<notin> set post))
   \<and> (re_search_braces text = None \<longleftrightarrow>
        \<not> (\<exists>a b c. text = a @ CHR ''{'' # b @ CHR ''}'' # c))
   \<and> re_search_braces example_reply = Some example_object
   \<and> (json_loads example_reply = None \<and> json_loads example_object = Some empty_bill \<longrightarrow>
        get_gemini_response json_loads (Reply example_reply) = ([], Inr empty_bill)
        \<and> bill_items empty_bill = Some [])"
proof (intro conjI)
  show "re_search_braces text = Some m \<longrightarrow>
        (\<exists>pre b post. text = pre @ m @ post \<and> m = CHR ''{'' # b @ [CHR ''}'']
           \<and> CHR ''{'' \<notin> set pre \<and> CHR ''}'' \<notin> set post)"
    using re_search_shape by blast
  show "re_search_braces text = None \<longleftrightarrow>
        \<not> (\<exists>a b c. text = a @ CHR ''{'' # b @ CHR ''}'' # c)"
    by (rule re_search_None_iff)
  show "re_search_braces example_reply = Some example_object" by (rule example_match)
qed (simp_all add: get_gemini_response_def report_failure_def example_match empty_bill_items)

theorem extraction_parsing_policy_witness:
  "sample_loads example_object = Some empty_bill
   \<and> get_gemini_response sample_loads (Reply example_object) = ([], Inr empty_bill)
   \<and> sample_loads example_reply = None
   \<and> get_gemini_response sample_loads (Reply example_reply) = ([], Inr empty_bill)
   \<and> bill_items empty_bill = Some []
   \<and> (\<exists>pre b post. example_reply = pre @ example_object @ post
          \<and> example_object = CHR ''{'' # b @ [CHR ''}'']
          \<and> CHR ''{'' \<notin> set pre \<and> CHR ''}'' \<notin> set post)
   \<and> sample_loads ''{oops}'' = None \<and> re_search_braces ''{oops}'' = Some ''{oops}''
   \<and> get_gemini_response sample_loads (Reply ''{oops}'')
       = ([ErrorProcessing JSONDecodeError, ErrorRawResponse, Code ''{oops}''], Inr JNull)
   \<and> sample_loads ''no json here'' = None \<and> re_search_braces ''no json here'' = None
   \<and> get_gemini_response sample_loads (Reply ''no json here'')
       = ([ErrorProcessing NoJsonFound, ErrorRawResponse, Code ''no json here''], Inr JNull)"
proof -
  have a: "sample_loads example_reply = None" by code_simp
  have b: "sample_loads example_object = Some empty_bill" by code_simp
  have c: "sample_loads ''no json here'' = None" by code_simp
  have d: "re_search_braces ''no json here'' = None" by code_simp
  have e: "sample_loads ''{oops}'' = None" by code_simp
  have f: "re_search_braces ''{oops}'' = Some ''{oops}''" by code_simp
  from extraction_parsing_policy [of sample_loads "''no json here''"] c d
  have 1: "get_gemini_response sample_loads (Reply ''no json here'')
       = ([ErrorProcessing NoJsonFound, ErrorRawResponse, Code ''no json here''], Inr JNull)"
    by blast
  from extraction_parsing_policy [of sample_loads "''{oops}''" _ "''{oops}''"] e f
  have 2: "get_gemini_response sample_loads (Reply ''{oops}'')
       = ([ErrorProcessing JSONDecodeError, ErrorRawResponse, Code ''{oops}''], Inr JNull)"
    by blast
  from extraction_parsing_policy [of sample_loads example_object empty_bill] b
  have 3: "get_gemini_response sample_loads (Reply example_object) = ([], Inr empty_bill)"
    by blast
  from extraction_parsing_policy [of sample_loads example_reply _ example_object] a b
  have 4: "get_gemini_response sample_loads (Reply example_reply) = ([], Inr empty_bill)
        \<and> bill_items empty_bill = Some []
        \<and> (\<exists>pre b post. example_reply = pre @ example_object @ post
          \<and> example_object = CHR ''{'' # b @ [CHR ''}'']
          \<and> CHR ''{'' \<notin> set pre \<and> CHR ''}'' \<notin> set post)"
    by blast
  from 1 2 3 4 a b c d e f show ?thesis by blast
qed

subsection \<open>Allocation toggles\<close>

lemma assign_twice: "toggle_then (assign alloc i p) i p True = assign alloc i p"
  by (auto simp: toggle_then_def assign_def toggle_def split: option.splits)

lemma unassign_after_assign:
  "alloc i = Some l \<Longrightarrow> p \<notin> set l \<Longrightarrow> toggle_then (assign alloc i p) i p False = Inr alloc"
  by (auto simp: toggle_then_def assign_def toggle_def remove1_append fun_upd_idem_iff)

lemma toggle_commute_other_item:
  assumes "i \<noteq> j"
  shows "same_outcome (toggle_then (toggle alloc i p b1) j q b2)
           (toggle_then (toggle alloc j q b2) i p b1)"
  using assms
  by (auto simp: same_outcome_def toggle_then_def toggle_def fun_upd_twist
      split: option.splits)

lemma toggle_commute_same_item:
  assumes "p \<noteq> q"
  shows "same_outcome (toggle_then (toggle alloc i p b1) i q b2)
           (toggle_then (toggle alloc i q b2) i p b1)"
proof (cases "alloc i")
  case None
  then show ?thesis by (simp add: same_outcome_def toggle_then_def toggle_def)
next
  case (Some l)
  have m: "q \<in> set (remove1 p l) \<longleftrightarrow> q \<in> set l" "p \<in> set (remove1 q l) \<longleftrightarrow> p \<in> set l"
    using assms by (simp_all add: in_set_remove1)
  show ?thesis
    using assms Some m
    by (cases b1; cases b2)
      (auto simp: same_outcome_def toggle_then_def toggle_def sharers_def remove1_append
        remove1_commute fun_eq_iff)
qed

text \<open>
  C7, as amended. Assigning a participant to an item twice is assigning once, an item
  name missing from the map raising KeyError both times. Unassigning after assigning
  gives back the allocation as it was when the participant was not a sharer of the item
  before. Two toggles on distinct (item, participant) pairs give, in either order, the
  same sharer set for every item, or an exception in both orders.
\<close>

theorem allocation_toggles:
  "toggle_then (assign alloc i p) i p True = assign alloc i p
   \<and> (alloc i = Some l \<and> p \<notin> set l \<longrightarrow>
        toggle_then (assign alloc i p) i p False = Inr alloc)
   \<and> ((i, p) \<noteq> (j, q) \<longrightarrow>
        same_outcome (toggle_then (toggle alloc i p b1) j q b2)
          (toggle_then (toggle alloc j q b2) i p b1))"
proof (intro conjI impI)
  assume "(i, p) \<noteq> (j, q)"
  then consider "i \<noteq> j" | "i = j" "p \<noteq> q" by auto
  then show "same_outcome (toggle_then (toggle alloc i p b1) j q b2)
          (toggle_then (toggle alloc j q b2) i p b1)"
  proof cases
    case 1
    then show ?thesis by (rule toggle_commute_other_item)
  next
    case 2
    then show ?thesis using toggle_commute_same_item by simp
  qed
qed (simp_all add: assign_twice unassign_after_assign)

theorem allocation_toggles_witness:
  "tea_alloc ''Tea'' = Some [''Ann''] \<and> ''Bob'' \<notin> set [''Ann'']
   \<and> toggle_then (assign tea_alloc ''Tea'' ''Bob'') ''Tea'' ''Bob'' False = Inr tea_alloc
   \<and> (''Tea'', ''Bob'') \<noteq> (''Tea'', ''Ann'')
   \<and> same_outcome (toggle_then (toggle tea_alloc ''Tea'' ''Bob'' True) ''Tea'' ''Ann'' False)
        (toggle_then (toggle tea_alloc ''Tea'' ''Ann'' False) ''Tea'' ''Bob'' True)"
proof -
  have a: "tea_alloc ''Tea'' = Some [''Ann'']" by (simp add: tea_alloc_def)
  have b: "''Bob'' \<notin> set [''Ann'']" by simp
  have c: "(''Tea'', ''Bob'') \<noteq> (''Tea'', ''Ann'')" by simp
  from allocation_toggles
    [of tea_alloc "''Tea''" "''Bob''" "[''Ann'']" "''Tea''" "''Ann''" True False] a b c
  show ?thesis by blast
qed

text \<open>
  The claim as stated fails when the participant is already a sharer: assigning changes
  nothing, unassigning removes the participant, and the sharer set is not the prior one.
\<close>

theorem allocation_toggles_counterexample:
  "tea_alloc ''Tea'' = Some [''Ann'']
   \<and> assign tea_alloc ''Tea'' ''Ann'' = Inr tea_alloc
   \<and> unassign tea_alloc ''Tea'' ''Ann'' = Inr [''Tea'' \<mapsto> []]
   \<and> toggle_then (assign tea_alloc ''Tea'' ''Ann'') ''Tea'' ''Ann'' False = Inr [''Tea'' \<mapsto> []]
   \<and> sharers [''Tea'' \<mapsto> []] ''Tea'' = Some {}
   \<and> sharers tea_alloc ''Tea'' = Some {''Ann''}
   \<and> sharers [''Tea'' \<mapsto> []] ''Tea'' \<noteq> sharers tea_alloc ''Tea''"
  by (simp add: tea_alloc_def assign_def unassign_def toggle_def toggle_then_def sharers_def)

subsection \<open>Failed extraction\<close>

lemma unparsable_returns_None:
  "unparsable json_loads text \<Longrightarrow>
   snd (get_gemini_response json_loads (Reply text)) = Inr JNull
   \<and> fst (get_gemini_response json_loads (Reply text)) \<noteq> []
   \<and> last (fst (get_gemini_response json_loads (Reply text))) = Code text"
  by (auto simp: unparsable_def get_gemini_response_def report_failure_def split: option.splits)

lemma no_json_here:
  "unparsable sample_loads ''no json here''"
  by code_simp




text \<open>
  C9, as amended. When the model call raises, the handler of line 54 shows its two
  messages and raises NameError at line 57, so no raw reply text is shown. The adapter
  returns None only when a reply was received, and then either the reply cannot be
  parsed, or json.loads parsed JSON null from the reply or from the match in it. A
  reply that cannot be parsed always makes it return None.
\<close>

theorem failed_call_raises_NameError:
  "get_gemini_response json_loads CallRaises
     = ([ErrorProcessing CallFailed, ErrorRawResponse], Inl NameError)
   \<and> Code raw \<notin> set (fst (get_gemini_response json_loads CallRaises))
   \<and> (snd (get_gemini_response json_loads call) = Inr JNull \<longrightarrow>
        (\<exists>text. call = Reply text
           \<and> (unparsable json_loads text
              \<or> json_loads text = Some JNull
              \<or> (\<exists>m. json_loads text = None \<and> re_search_braces text = Some m
                     \<and> json_loads m = Some JNull))))
   \<and> (unparsable json_loads text \<longrightarrow>
        snd (get_gemini_response json_loads (Reply text)) = Inr JNull)"
proof (intro conjI impI)
  assume a: "snd (get_gemini_response json_loads call) = Inr JNull"
  then obtain reply where t: "call = Reply reply"
    by (cases call) (simp_all add: get_gemini_response_def)
  from a have "unparsable json_loads reply
              \<or> json_loads reply = Some JNull
              \<or> (\<exists>m. json_loads reply = None \<and> re_search_braces reply = Some m
                     \<and> json_loads m = Some JNull)"
    unfolding t
    by (auto simp: get_gemini_response_def report_failure_def unparsable_def
        split: option.splits)
  with t show "\<exists>text. call = Reply text
           \<and> (unparsable json_loads text
              \<or> json_loads text = Some JNull
              \<or> (\<exists>m. json_loads text = None \<and> re_search_braces text = Some m
                     \<and> json_loads m = Some JNull))"
    by blast
next
  assume "unparsable json_loads text"
  then show "snd (get_gemini_response json_loads (Reply text)) = Inr JNull"
    using unparsable_returns_None by blast
qed (simp_all add: get_gemini_response_def)

theorem failed_call_raises_NameError_witness:
  "unparsable sample_loads ''no json here''
   \<and> snd (get_gemini_response sample_loads (Reply ''no json here'')) = Inr JNull
   \<and> (\<exists>text. Reply ''no json here'' = Reply text
          \<and> (unparsable sample_loads text
              \<or> sample_loads text = Some JNull
              \<or> (\<exists>m. sample_loads text = None \<and> re_search_braces text = Some m
                     \<and> sample_loads m = Some JNull)))"
proof -
  from failed_call_raises_NameError [of sample_loads _ _ "''no json here''"] no_json_here
  have a: "snd (get_gemini_response sample_loads (Reply ''no json here'')) = Inr JNull"
    by blast
  with failed_call_raises_NameError [of sample_loads _ "Reply ''no json here''"] no_json_here
  show ?thesis by blast
qed

text \<open>
  The claim as stated fails on the reply \<^verbatim>\<open>null\<close>: json.loads parses it to None, which
  the adapter returns with nothing shown.
\<close>

theorem failed_call_raises_NameError_counterexample:
  "sample_loads ''null'' = Some JNull
   \<and> get_gemini_response sample_loads (Reply ''null'') = ([], Inr JNull)
   \<and> \<not> unparsable sample_loads ''null''"
  by code_simp

subsection \<open>The number of participants\<close>






lemma main_steps:
  "\<exists>s2. (s2 = enter_names (names_input inp) s
          \<or> (\<exists>c. s2 = fst (analyze_bill json_loads c (enter_names (names_input inp) s))))
     \<and> (fst (main json_loads inp s) = s2
        \<or> fst (main json_loads inp s) = fst (verify_and_edit (page inp) s2)
        \<or> fst (main json_loads inp s)
            = fst (allocate_items (page inp) (fst (verify_and_edit (page inp) s2))))"
proof -
  let ?s1 = "enter_names (names_input inp) s"
  let ?r2 = "case analyze_click inp of None \<Rightarrow> (?s1, None)
      | Some c \<Rightarrow> analyze_bill json_loads c ?s1"
  have a: "fst ?r2 = ?s1 \<or> (\<exists>c. fst ?r2 = fst (analyze_bill json_loads c ?s1))"
    by (cases "analyze_click inp") auto
  have b: "fst (main json_loads inp s) = fst ?r2
        \<or> fst (main json_loads inp s) = fst (verify_and_edit (page inp) (fst ?r2))
        \<or> fst (main json_loads inp s)
            = fst (allocate_items (page inp) (fst (verify_and_edit (page inp) (fst ?r2))))"
    by (simp add: main_def Let_def split: prod.splits option.splits)
  from a b show ?thesis by blast
qed














subsection \<open>The allocation map\<close>

lemma toggle_dom: "toggle a i n b = Inr a' \<Longrightarrow> dom a' = dom a"
  by (auto simp: toggle_def split: option.splits if_splits)

lemma toggle_present: "i \<in> dom a \<Longrightarrow> \<exists>a'. toggle a i n b = Inr a'"
  by (auto simp: toggle_def)

lemma toggle_absent: "i \<notin> dom a \<Longrightarrow> toggle a i n b = Inl (KeyError i)"
  by (auto simp: toggle_def split: option.splits)

lemma toggle_names_dom: "dom (fst (toggle_names w a i ns)) = dom a"
proof (induction ns arbitrary: a)
  case Nil
  then show ?case by simp
next
  case (Cons n ns)
  show ?case
  proof (cases "toggle a i n (checkbox w (i @ ''_'' @ n))")
    case (Inl e)
    then show ?thesis by simp
  next
    case (Inr a')
    with Cons.IH [of a'] toggle_dom [OF Inr] show ?thesis by simp
  qed
qed

lemma toggle_names_present: "i \<in> dom a \<Longrightarrow> snd (toggle_names w a i ns) = None"
proof (induction ns arbitrary: a)
  case Nil
  then show ?case by simp
next
  case (Cons n ns)
  from toggle_present [OF Cons.prems] obtain a' where
    a': "toggle a i n (checkbox w (i @ ''_'' @ n)) = Inr a'" by blast
  with Cons.prems have "i \<in> dom a'" using toggle_dom by blast
  with Cons.IH a' show ?case by simp
qed

lemma toggle_names_absent:
  "i \<notin> dom a \<Longrightarrow> ns \<noteq> [] \<Longrightarrow> toggle_names w a i ns = (a, Some (KeyError i))"
  by (cases ns) (simp_all add: toggle_absent)

lemma toggle_items_dom: "dom (fst (toggle_items w a ns its)) = dom a"
proof (induction its arbitrary: a)
  case Nil
  then show ?case by simp
next
  case (Cons it its)
  obtain a' e where r: "toggle_names w a (name it) ns = (a', e)"
    by (cases "toggle_names w a (name it) ns")
  then have "dom a' = dom a" using toggle_names_dom [of w a "name it" ns] by simp
  with Cons.IH [of a'] r show ?case by (cases e) simp_all
qed

lemma toggle_items_absent:
  "ns \<noteq> [] \<Longrightarrow> it \<in> set its \<Longrightarrow> name it \<notin> dom a \<Longrightarrow>
   \<exists>k. snd (toggle_items w a ns its) = Some (KeyError k)"
proof (induction its arbitrary: a)
  case Nil
  then show ?case by simp
next
  case (Cons x its)
  show ?case
  proof (cases "name x \<in> dom a")
    case True
    obtain a' e where r: "toggle_names w a (name x) ns = (a', e)"
      by (cases "toggle_names w a (name x) ns")
    with True have e: "e = None" using toggle_names_present [of "name x" a w ns] by simp
    from r have d: "dom a' = dom a" using toggle_names_dom [of w a "name x" ns] by simp
    from True Cons.prems have "it \<in> set its" by auto
    with Cons.IH [of a'] Cons.prems d
    have "\<exists>k. snd (toggle_items w a' ns its) = Some (KeyError k)" by simp
    with r e show ?thesis by simp
  next
    case False
    with Cons.prems(1) show ?thesis by (simp add: toggle_names_absent)
  qed
qed

lemma new_allocations_dom_aux:
  "dom (foldl (\<lambda>m it. m(name it \<mapsto> [])) m0 its) = dom m0 \<union> name ` set its"
  by (induction its arbitrary: m0) auto

lemma new_allocations_dom: "dom (new_allocations its) = name ` set its"
  by (simp add: new_allocations_def new_allocations_dom_aux)

lemma allocations_enter_names: "allocations (enter_names inp s) = allocations s"
  by (simp add: enter_names_def)

lemma allocations_analyze_bill: "allocations (fst (analyze_bill json_loads c s)) = allocations s"
  by (simp add: analyze_bill_def Let_def split: sum.splits)

lemma allocations_verify_and_edit: "allocations (fst (verify_and_edit w s)) = allocations s"
  by (simp add: verify_and_edit_def Let_def split: option.splits)

lemma allocations_allocate_items:
  "allocations s = Some a \<Longrightarrow>
   \<exists>a'. allocations (fst (allocate_items w s)) = Some a' \<and> dom a' = dom a"
  by (auto simp: allocate_items_def Let_def toggle_items_dom split: option.splits)

lemma allocations_created:
  assumes "allocations s = None" and "edited_bill_data s = Some ebd"
    and "bill_items ebd = Some its" and "names s = Some ns"
  shows "\<exists>a. allocations (fst (allocate_items w s)) = Some a \<and> dom a = name ` set its"
  using assms by (simp add: allocate_items_def Let_def toggle_items_dom new_allocations_dom)

lemma allocations_main:
  assumes "allocations s = Some a"
  shows "\<exists>a'. allocations (fst (main json_loads inp s)) = Some a' \<and> dom a' = dom a"
proof -
  from main_steps [of inp s json_loads] obtain s2 where
    s2: "s2 = enter_names (names_input inp) s
          \<or> (\<exists>c. s2 = fst (analyze_bill json_loads c (enter_names (names_input inp) s)))"
    and m: "fst (main json_loads inp s) = s2
        \<or> fst (main json_loads inp s) = fst (verify_and_edit (page inp) s2)
        \<or> fst (main json_loads inp s)
            = fst (allocate_items (page inp) (fst (verify_and_edit (page inp) s2)))"
    by blast
  from s2 assms have a2: "allocations s2 = Some a"
    by (auto simp: allocations_enter_names allocations_analyze_bill)
  then have a3: "allocations (fst (verify_and_edit (page inp) s2)) = Some a"
    by (simp add: allocations_verify_and_edit)
  from allocations_allocate_items [OF a3] m a2 a3 show ?thesis by auto
qed

lemma add_cost_error: "add_cost d n c = Inl e \<Longrightarrow> \<exists>k. e = KeyError k"
  by (auto simp: add_cost_def split: option.splits)

lemma add_shares_error: "add_shares d c ns = Inl e \<Longrightarrow> \<exists>k. e = KeyError k"
  by (induction ns arbitrary: d) (auto split: sum.splits dest: add_cost_error)

lemma split_item_error: "split_item alloc d it = Inl e \<Longrightarrow> \<exists>k. e = KeyError k"
  by (auto simp: split_item_def py_div_def split: option.splits if_splits dest: add_shares_error)

lemma split_items_absent:
  "it \<in> set its \<Longrightarrow> alloc (name it) = None \<Longrightarrow> \<exists>k. split_items alloc d its = Inl (KeyError k)"
proof (induction its arbitrary: d)
  case Nil
  then show ?case by simp
next
  case (Cons x its)
  show ?case
  proof (cases "split_item alloc d x")
    case (Inl e)
    with split_item_error show ?thesis by fastforce
  next
    case (Inr d')
    with Cons.prems have "x \<noteq> it" by (auto simp: split_item_def)
    with Cons.prems have "it \<in> set its" by simp
    with Cons.IH [of d'] Cons.prems Inr show ?thesis by simp
  qed
qed

text \<open>
  C10. Step 4 creates the allocation map only while the session has none, with the
  names of the items of that moment as its keys. Once the map is there, analyzing a
  bill and Step 3 leave it as it is, Step 4 and a whole run of the script keep its set
  of keys. Step 4 and the split calculation look up each current item's name in the
  map: when the name of a current item is not a key, the calculation raises KeyError,
  and so does Step 4 as soon as there is a name to show a checkbox for.
\<close>

theorem allocations_keyed_once:
  "(allocations s = None \<and> edited_bill_data s = Some ebd \<and> bill_items ebd = Some its
      \<and> names s = Some ns \<longrightarrow>
      (\<exists>a. allocations (fst (allocate_items w s)) = Some a \<and> dom a = name ` set its))
   \<and> (allocations s = Some a \<longrightarrow>
        allocations (fst (analyze_bill json_loads call s)) = Some a
        \<and> allocations (fst (verify_and_edit w s)) = Some a
        \<and> (\<exists>a'. allocations (fst (allocate_items w s)) = Some a' \<and> dom a' = dom a)
        \<and> (\<exists>a'. allocations (fst (main json_loads inp s)) = Some a' \<and> dom a' = dom a))
   \<and> (allocations s = Some a \<and> edited_bill_data s = Some ebd \<and> bill_items ebd = Some its
      \<and> names s = Some ns \<and> it \<in> set its \<and> name it \<notin> dom a \<longrightarrow>
        (ns \<noteq> [] \<longrightarrow> (\<exists>k. snd (allocate_items w s) = Some (KeyError k)))
        \<and> (\<exists>k. calculate_split s = Inl (KeyError k)))"
proof (intro conjI impI)
  assume "allocations s = None \<and> edited_bill_data s = Some ebd \<and> bill_items ebd = Some its
      \<and> names s = Some ns"
  then show "\<exists>a. allocations (fst (allocate_items w s)) = Some a \<and> dom a = name ` set its"
    using allocations_created by blast
next
  assume h: "allocations s = Some a \<and> edited_bill_data s = Some ebd
      \<and> bill_items ebd = Some its \<and> names s = Some ns \<and> it \<in> set its \<and> name it \<notin> dom a"
  {
    assume "ns \<noteq> []"
    with h toggle_items_absent [of ns it its a w]
    show "\<exists>k. snd (allocate_items w s) = Some (KeyError k)"
      by (auto simp: allocate_items_def Let_def)
  }
  from h have "a (name it) = None" by auto
  with h split_items_absent [of it its a "init_costs ns"]
  show "\<exists>k. calculate_split s = Inl (KeyError k)"
    by (auto simp: calculate_split_def)
qed (simp_all add: allocations_analyze_bill allocations_verify_and_edit
    allocations_allocate_items allocations_main)

theorem allocations_keyed_once_witness:
  "allocations renamed_session = Some scenario_alloc
   \<and> \<lparr>name = ''Pasta'', price = 20\<rparr> \<in> set renamed_items
   \<and> ''Pasta'' \<notin> dom scenario_alloc
   \<and> (\<exists>k. snd (allocate_items untouched renamed_session) = Some (KeyError k))
   \<and> (\<exists>k. calculate_split renamed_session = Inl (KeyError k))
   \<and> snd (main sample_loads rename_run scenario_session) = Inl (KeyError ''Pasta'')
   \<and> (\<exists>a'. allocations (fst (main sample_loads rename_run scenario_session)) = Some a'
          \<and> dom a' = dom scenario_alloc)
   \<and> allocations unallocated_session = None
   \<and> (\<exists>a. allocations (fst (allocate_items untouched unallocated_session)) = Some a
          \<and> dom a = name ` set scenario_items)"
proof -
  have u: "allocations unallocated_session = None"
    "edited_bill_data unallocated_session = Some scenario_bill"
    "names unallocated_session = Some [''Alice'', ''Bob'']"
    by (simp_all add: unallocated_session_def scenario_session_def)
  from allocations_keyed_once
    [of unallocated_session scenario_bill scenario_items "[''Alice'', ''Bob'']" untouched]
    u scenario_bill_fields(1)
  have h: "\<exists>a. allocations (fst (allocate_items untouched unallocated_session)) = Some a
          \<and> dom a = name ` set scenario_items"
    by blast
  have a: "allocations renamed_session = Some scenario_alloc"
    "edited_bill_data renamed_session = Some renamed_bill"
    "names renamed_session = Some [''Alice'', ''Bob'']"
    "allocations scenario_session = Some scenario_alloc"
    by (simp_all add: renamed_session_def scenario_session_def)
  have b: "bill_items renamed_bill = Some renamed_items" by code_simp
  have c: "\<lparr>name = ''Pasta'', price = 20\<rparr> \<in> set renamed_items"
    by (simp add: renamed_items_def)
  have d: "name \<lparr>name = ''Pasta'', price = 20\<rparr> \<notin> dom scenario_alloc"
    by (simp add: scenario_alloc_def)
  have e: "snd (main sample_loads rename_run scenario_session) = Inl (KeyError ''Pasta'')"
    by code_simp
  from allocations_keyed_once
    [of renamed_session renamed_bill renamed_items "[''Alice'', ''Bob'']" untouched
      scenario_alloc _ _ _ "\<lparr>name = ''Pasta'', price = 20\<rparr>"]
    a b c d
  have f: "(\<exists>k. snd (allocate_items untouched renamed_session) = Some (KeyError k))
      \<and> (\<exists>k. calculate_split renamed_session = Inl (KeyError k))"
    by simp
  from allocations_keyed_once [of scenario_session _ _ _ _ scenario_alloc sample_loads _ rename_run]
    a(4)
  have g: "\<exists>a'. allocations (fst (main sample_loads rename_run scenario_session)) = Some a'
          \<and> dom a' = dom scenario_alloc"
    by blast
  from a(1) c d e f g h u(1) show ?thesis by simp
qed

end
